theory Spec2Isabelle
  imports Main "HOL-Library.Char_ord" "HOL-Library.List_Lexorder" "HOL-Library.Word"
begin

unbundle bit_operations_syntax

section \<open>Python values as the registry script sees them\<close>

text \<open>
  The script \<^verbatim>\<open>scripts/update_registry.py\<close> works on the values that \<^verbatim>\<open>json.loads\<close>
  returns and on dictionaries it builds itself. A dictionary is an association list in
  insertion order (the order \<^verbatim>\<open>json.dump\<close> writes); lookups take the first binding of a
  key. Floating-point numbers are not part of the model.
\<close>

datatype json =
    JNull
  | JBool bool
  | JInt int
  | JStr string
  | JArr "json list"
  | JObj "(string \<times> json) list"

type_synonym dict = "(string \<times> json) list"

text \<open>The exception classes that occur; \<open>OtherException\<close> stands for any further subclass
  of \<^verbatim>\<open>Exception\<close>.\<close>

datatype exc =
    TypeError
  | KeyError
  | AttributeError
  | FileNotFoundError
  | BadZipFile
  | JSONDecodeError
  | UnicodeDecodeError
  | OSError
  | OtherException

text \<open>\<^verbatim>\<open>d.get(k, default)\<close>; \<^verbatim>\<open>d.get(k)\<close> is \<open>py_get d k JNull\<close>.\<close>

definition py_get :: "dict \<Rightarrow> string \<Rightarrow> json \<Rightarrow> json" where
  "py_get d k dflt = (case map_of d k of None \<Rightarrow> dflt | Some v \<Rightarrow> v)"

text \<open>\<^verbatim>\<open>x[k]\<close> with a string key: only a dictionary can be subscripted by a string.\<close>

definition py_subscript :: "json \<Rightarrow> string \<Rightarrow> exc + json" where
  "py_subscript x k =
     (case x of
        JObj d \<Rightarrow> (case map_of d k of None \<Rightarrow> Inl KeyError | Some v \<Rightarrow> Inr v)
      | _ \<Rightarrow> Inl TypeError)"

text \<open>Truth value of an object in a condition, and \<^verbatim>\<open>a or b\<close>.\<close>

fun truthy :: "json \<Rightarrow> bool" where
  "truthy JNull = False"
| "truthy (JBool b) = b"
| "truthy (JInt n) = (n \<noteq> 0)"
| "truthy (JStr s) = (s \<noteq> [])"
| "truthy (JArr xs) = (xs \<noteq> [])"
| "truthy (JObj d) = (d \<noteq> [])"

definition py_or :: "json \<Rightarrow> json \<Rightarrow> json" where
  "py_or a b = (if truthy a then a else b)"

fun is_str :: "json \<Rightarrow> bool" where
  "is_str (JStr s) = True"
| "is_str _ = False"

text \<open>
  Python's \<^verbatim>\<open>==\<close> on these values: \<^verbatim>\<open>None\<close> equals only itself, \<^verbatim>\<open>bool\<close> is a
  subtype of \<^verbatim>\<open>int\<close> (\<^verbatim>\<open>True == 1\<close>), strings and lists compare by content, and
  dictionaries compare as unordered maps. Two values are equal exactly when their
  canonical forms (booleans as integers, dictionaries sorted by key) coincide.
\<close>

primrec canon :: "json \<Rightarrow> json" where
  "canon JNull = JNull"
| "canon (JBool b) = JInt (if b then 1 else 0)"
| "canon (JInt n) = JInt n"
| "canon (JStr s) = JStr s"
| "canon (JArr xs) = JArr (map canon xs)"
| "canon (JObj kvs) =
     JObj (let d = map (map_prod id canon) kvs
           in map (\<lambda>k. (k, py_get d k JNull)) (sort (remdups (map fst d))))"

definition py_eq :: "json \<Rightarrow> json \<Rightarrow> bool" where
  "py_eq a b = (canon a = canon b)"

section \<open>Strings\<close>

text \<open>Characters stand for code points below 256; \<^verbatim>\<open>str.upper\<close> and \<^verbatim>\<open>str.lower\<close> are
  modelled on the ASCII letters. No code point outside ASCII has an upper-case form among
  the keys of \<open>BUILD_MAP\<close> or a lower-case form among the letters of \<^verbatim>\<open>metadata.json\<close>.\<close>

definition py_upper_char :: "char \<Rightarrow> char" where
  "py_upper_char c =
     (if CHR ''a'' \<le> c \<and> c \<le> CHR ''z'' then char_of (of_char c - (32::nat)) else c)"

definition py_lower_char :: "char \<Rightarrow> char" where
  "py_lower_char c =
     (if CHR ''A'' \<le> c \<and> c \<le> CHR ''Z'' then char_of (of_char c + (32::nat)) else c)"

definition py_lower :: "string \<Rightarrow> string" where
  "py_lower s = map py_lower_char s"

definition endswith :: "string \<Rightarrow> string \<Rightarrow> bool" where
  "endswith s suf = (length suf \<le> length s \<and> drop (length s - length suf) s = suf)"

definition is_alnum :: "char \<Rightarrow> bool" where
  "is_alnum c = ((CHR ''A'' \<le> c \<and> c \<le> CHR ''Z'') \<or> (CHR ''a'' \<le> c \<and> c \<le> CHR ''z'')
                 \<or> (CHR ''0'' \<le> c \<and> c \<le> CHR ''9''))"

section \<open>Build type and file names\<close>

definition BUILD_MAP :: "(string \<times> string) list" where
  "BUILD_MAP = [(''A'', ''stable''), (''B'', ''rc''), (''C'', ''beta''), (''D'', ''alpha''),
                (''F'', ''debug'')]"

definition parse_build_type :: "string \<Rightarrow> string" where
  "parse_build_type build_id =
     (if build_id \<noteq> [] then
        (let letter = [py_upper_char (last build_id)]
         in case map_of BUILD_MAP letter of None \<Rightarrow> ''unknown'' | Some t \<Rightarrow> t)
      else ''unknown'')"

text \<open>
  \<^verbatim>\<open>FILENAME_RE = ^(?P<name>[^_]+)_(?P<buildid>[A-Za-z0-9]+)\.magic$\<close>, applied with
  \<^verbatim>\<open>match\<close>. The name group cannot contain an underscore, so it is the text before the
  first underscore; the build id is the longest alphanumeric run after it, because the
  character that follows must be the dot. \<^verbatim>\<open>$\<close> also matches before a final newline.
\<close>

definition FILENAME_RE_match :: "string \<Rightarrow> (string \<times> string) option" where
  "FILENAME_RE_match s =
     (let name = takeWhile (\<lambda>c. c \<noteq> CHR ''_'') s;
          rest = dropWhile (\<lambda>c. c \<noteq> CHR ''_'') s
      in if name = [] \<or> rest = [] then None
         else
           (let buildid = takeWhile is_alnum (tl rest);
                ext = dropWhile is_alnum (tl rest)
            in if buildid \<noteq> [] \<and> (ext = ''.magic'' \<or> ext = ''.magic'' @ [CHR 0x0A])
               then Some (name, buildid) else None))"

text \<open>\<^verbatim>\<open>str.strip()\<close>: the white space of \<^verbatim>\<open>str.isspace\<close> among the code points
  below 256.\<close>

definition py_isspace :: "char \<Rightarrow> bool" where
  "py_isspace c = ((of_char c :: nat) \<in> {9, 10, 11, 12, 13, 28, 29, 30, 31, 32, 133, 160})"

definition py_strip :: "string \<Rightarrow> string" where
  "py_strip s = rev (dropWhile py_isspace (rev (dropWhile py_isspace s)))"

section \<open>Checksum\<close>

text \<open>SHA-256 as in FIPS 180-4, on bytes; \<^verbatim>\<open>hexdigest\<close> renders the eight state words
  in lower-case hexadecimal.\<close>

type_synonym byte = "8 word"
type_synonym w32 = "32 word"

definition K256 :: "w32 list" where
  "K256 =
    [1116352408, 1899447441, 3049323471, 3921009573, 961987163, 1508970993, 2453635748, 2870763221,
     3624381080, 310598401, 607225278, 1426881987, 1925078388, 2162078206, 2614888103, 3248222580,
     3835390401, 4022224774, 264347078, 604807628, 770255983, 1249150122, 1555081692, 1996064986,
     2554220882, 2821834349, 2952996808, 3210313671, 3336571891, 3584528711, 113926993, 338241895,
     666307205, 773529912, 1294757372, 1396182291, 1695183700, 1986661051, 2177026350, 2456956037,
     2730485921, 2820302411, 3259730800, 3345764771, 3516065817, 3600352804, 4094571909, 275423344,
     430227734, 506948616, 659060556, 883997877, 958139571, 1322822218, 1537002063, 1747873779,
     1955562222, 2024104815, 2227730452, 2361852424, 2428436474, 2756734187, 3204031479, 3329325298]"

definition H256 :: "w32 list" where
  "H256 = [1779033703, 3144134277, 1013904242, 2773480762,
           1359893119, 2600822924, 528734635, 1541459225]"

definition Ch :: "w32 \<Rightarrow> w32 \<Rightarrow> w32 \<Rightarrow> w32" where
  "Ch x y z = (x AND y) XOR (NOT x AND z)"

definition Maj :: "w32 \<Rightarrow> w32 \<Rightarrow> w32 \<Rightarrow> w32" where
  "Maj x y z = (x AND y) XOR (x AND z) XOR (y AND z)"

definition Sum0 :: "w32 \<Rightarrow> w32" where
  "Sum0 x = word_rotr 2 x XOR word_rotr 13 x XOR word_rotr 22 x"

definition Sum1 :: "w32 \<Rightarrow> w32" where
  "Sum1 x = word_rotr 6 x XOR word_rotr 11 x XOR word_rotr 25 x"

definition sig0 :: "w32 \<Rightarrow> w32" where
  "sig0 x = word_rotr 7 x XOR word_rotr 18 x XOR drop_bit 3 x"

definition sig1 :: "w32 \<Rightarrow> w32" where
  "sig1 x = word_rotr 17 x XOR word_rotr 19 x XOR drop_bit 10 x"

fun schedule :: "nat \<Rightarrow> w32 list \<Rightarrow> w32 list" where
  "schedule 0 w = w"
| "schedule (Suc n) w =
     schedule n (w @ [sig1 (w ! (length w - 2)) + w ! (length w - 7)
                      + sig0 (w ! (length w - 15)) + w ! (length w - 16)])"

fun round256 :: "w32 \<times> w32 \<Rightarrow> w32 list \<Rightarrow> w32 list" where
  "round256 (k, w) [a, b, c, d, e, f, g, h] =
     (let t1 = h + Sum1 e + Ch e f g + k + w; t2 = Sum0 a + Maj a b c
      in [t1 + t2, a, b, c, d + t1, e, f, g])"
| "round256 _ s = s"

definition compress :: "w32 list \<Rightarrow> w32 list \<Rightarrow> w32 list" where
  "compress block h = map2 (+) h (fold round256 (zip K256 (schedule 48 block)) h)"

fun be_words :: "byte list \<Rightarrow> w32 list" where
  "be_words (a # b # c # d # bs) =
     (push_bit 24 (ucast a) OR push_bit 16 (ucast b) OR push_bit 8 (ucast c) OR ucast d)
       # be_words bs"
| "be_words _ = []"

definition pad256 :: "byte list \<Rightarrow> byte list" where
  "pad256 m =
     m @ [0x80] @ replicate ((119 - length m mod 64) mod 64) 0
       @ map (\<lambda>i. ucast (drop_bit (8 * (7 - i)) (of_nat (8 * length m) :: 64 word))) [0..<8]"

fun blocks :: "nat \<Rightarrow> 'a list \<Rightarrow> 'a list list" where
  "blocks n xs = (if n = 0 \<or> xs = [] then [] else take n xs # blocks n (drop n xs))"

definition sha256 :: "byte list \<Rightarrow> w32 list" where
  "sha256 m = fold compress (map be_words (blocks 64 (pad256 m))) H256"

definition hex_digit :: "nat \<Rightarrow> char" where
  "hex_digit n = ''0123456789abcdef'' ! (n mod 16)"

definition hex32 :: "w32 \<Rightarrow> string" where
  "hex32 w = map (\<lambda>i. hex_digit (unat (drop_bit (4 * (7 - i)) w))) [0..<8]"

definition hexdigest :: "byte list \<Rightarrow> string" where
  "hexdigest m = concat (map hex32 (sha256 m))"

text \<open>
  A \<^verbatim>\<open>hashlib\<close> object, by its documented contract: \<^verbatim>\<open>update(a); update(b)\<close> is
  \<^verbatim>\<open>update(a + b)\<close>, so the object is the data fed so far, and \<^verbatim>\<open>hexdigest()\<close> is the
  digest of that data.
\<close>

type_synonym hasher = "byte list"

definition hash_new :: hasher where
  "hash_new = []"

definition hash_update :: "hasher \<Rightarrow> byte list \<Rightarrow> hasher" where
  "hash_update h chunk = h @ chunk"

definition hash_hexdigest :: "hasher \<Rightarrow> string" where
  "hash_hexdigest h = hexdigest h"

text \<open>\<^verbatim>\<open>for chunk in iter(lambda: f.read(1024 * 1024), b""): h.update(chunk)\<close>; the first
  argument is what the file still holds.\<close>

definition CHUNK :: nat where
  "CHUNK = 1024 * 1024"

function read_chunks :: "byte list \<Rightarrow> hasher \<Rightarrow> hasher" where
  "read_chunks rest h =
     (if take CHUNK rest = [] then h
      else read_chunks (drop CHUNK rest) (hash_update h (take CHUNK rest)))"
  by pat_completeness auto
termination
  by (relation "measure (\<lambda>(rest, h). length rest)") (auto simp: CHUNK_def)

declare read_chunks.simps [simp del]

definition sha256_file :: "byte list \<Rightarrow> string" where
  "sha256_file content = hash_hexdigest (read_chunks content hash_new)"

section \<open>The library, the configuration and the file system\<close>

text \<open>
  \<^verbatim>\<open>json.loads\<close> and \<^verbatim>\<open>json.dump(..., indent=2, ensure_ascii=False)\<close> are parameters
  of the model. \<^verbatim>\<open>json.loads\<close> returns a value or raises; the text \<^verbatim>\<open>json.dump\<close>
  writes is a function of the value.
\<close>

record pylib =
  json_loads :: "string \<Rightarrow> exc + json"
  json_dumps :: "json \<Rightarrow> string"

text \<open>The module constants computed from the environment, and the two variables read
  per file.\<close>

record config =
  REPO_OWNER :: string
  REPO_NAME :: string
  DEFAULT_BRANCH :: string
  DEV_SERVER_IP :: "string option"
  DEV_SERVER_PORT :: "string option"

text \<open>
  The registry file \<^verbatim>\<open>magic/manifest.json\<close>: absent, present with a text, or present
  and raising when opened or read.
\<close>

datatype file_state = Absent | Unreadable exc | Content string

text \<open>
  An entry of \<^verbatim>\<open>magic/upload\<close>: its name, whether \<^verbatim>\<open>is_file()\<close> holds, its bytes, and
  what \<^verbatim>\<open>zipfile.ZipFile(path, "r")\<close> makes of them: an exception, or the members in
  directory order, each with its name and the result of reading and decoding it.
\<close>

record magic_path =
  fname :: string
  regular :: bool
  content :: "byte list"
  zip_view :: "exc + (string \<times> (exc + string)) list"

record world =
  dist_dir :: "magic_path list option"
  registry_file :: file_state
  registry_write_error :: "exc option"
  today :: string

text \<open>The lines the script prints.\<close>

datatype msg =
    NoDistDir
  | NoMagicFound
  | IgnoredName string
  | FileError string exc
  | VersionMismatch json json
  | Upserted json json string
  | RegistryWritten
  | WarnRegistryEmpty
  | WarnRegistryInvalid exc
  | NewRegistry
  | ErrRegistryUnreadable exc

section \<open>Archive metadata reader\<close>

definition namelist :: "(string \<times> (exc + string)) list \<Rightarrow> string list" where
  "namelist members = map fst members"

text \<open>\<^verbatim>\<open>z.open(name)\<close> followed by \<^verbatim>\<open>read().decode("utf-8")\<close>. \<^verbatim>\<open>ZipFile.open\<close> finds the
  member through \<^verbatim>\<open>NameToInfo\<close>, the dictionary from names to members that is filled in
  directory order, so a later member replaces an earlier one of the same name.\<close>

definition zip_read :: "(string \<times> (exc + string)) list \<Rightarrow> string \<Rightarrow> exc + string" where
  "zip_read members name =
     (case map_of (rev members) name of None \<Rightarrow> Inl KeyError | Some r \<Rightarrow> r)"

fun find_candidate :: "string list \<Rightarrow> string option" where
  "find_candidate [] = None"
| "find_candidate (name # names) =
     (if endswith (py_lower name) ''metadata.json'' then Some name else find_candidate names)"

definition read_model_infos_from_magic :: "pylib \<Rightarrow> magic_path \<Rightarrow> exc + json" where
  "read_model_infos_from_magic L magic =
     (case zip_view magic of
        Inl e \<Rightarrow> Inl e
      | Inr z \<Rightarrow>
          (case find_candidate (namelist z) of
             None \<Rightarrow> Inl FileNotFoundError
           | Some candidate \<Rightarrow>
               if candidate = [] then Inl FileNotFoundError
               else (case zip_read z candidate of
                       Inl e \<Rightarrow> Inl e
                     | Inr text \<Rightarrow> json_loads L text)))"

section \<open>Registry store\<close>

definition empty_registry :: json where
  "empty_registry = JObj [(''models'', JArr [])]"

definition read_text :: "file_state \<Rightarrow> exc + string" where
  "read_text f = (case f of Absent \<Rightarrow> Inl FileNotFoundError | Unreadable e \<Rightarrow> Inl e
                  | Content t \<Rightarrow> Inr t)"

text \<open>The body of the \<^verbatim>\<open>try\<close> block of \<open>load_registry\<close>, with what it prints.\<close>

definition load_body :: "pylib \<Rightarrow> file_state \<Rightarrow> msg list \<times> (exc + json)" where
  "load_body L f =
     (case read_text f of
        Inl e \<Rightarrow> ([], Inl e)
      | Inr text \<Rightarrow>
          (let content = py_strip text
           in if content = [] then ([WarnRegistryEmpty], Inr empty_registry)
              else ([], json_loads L content)))"

definition load_registry :: "pylib \<Rightarrow> file_state \<Rightarrow> msg list \<times> (exc + json)" where
  "load_registry L f =
     (if f \<noteq> Absent then
        (case load_body L f of
           (out, Inr v) \<Rightarrow> (out, Inr v)
         | (out, Inl e) \<Rightarrow>
             if e = JSONDecodeError
             then (out @ [WarnRegistryInvalid e, NewRegistry], Inr empty_registry)
             else (out @ [ErrRegistryUnreadable e], Inr empty_registry))
      else ([], Inr empty_registry))"

text \<open>\<^verbatim>\<open>d[k] = v\<close>.\<close>

fun set_item :: "dict \<Rightarrow> string \<Rightarrow> json \<Rightarrow> dict" where
  "set_item [] k v = [(k, v)]"
| "set_item ((k', v') # d) k v = (if k' = k then (k, v) # d else (k', v') # set_item d k v)"

definition set_models :: "json \<Rightarrow> json list \<Rightarrow> json" where
  "set_models registry ms =
     (case registry of JObj d \<Rightarrow> JObj (set_item d ''models'' (JArr ms)) | _ \<Rightarrow> registry)"

definition same_key :: "dict \<Rightarrow> dict \<Rightarrow> bool" where
  "same_key m model_entry =
     (py_eq (py_get m ''name'' JNull) (py_get model_entry ''name'' JNull)
      \<and> py_eq (py_get m ''version'' JNull) (py_get model_entry ''version'' JNull))"

text \<open>The loop of \<open>upsert_model\<close> over a list: \<open>Some\<close> of the list with the first
  matching entry replaced, \<open>None\<close> when the loop ends without a match. Only a dictionary
  has \<^verbatim>\<open>get\<close>.\<close>

fun upsert_loop :: "json list \<Rightarrow> dict \<Rightarrow> exc + json list option" where
  "upsert_loop [] model_entry = Inr None"
| "upsert_loop (m # ms) model_entry =
     (case m of
        JObj d \<Rightarrow>
          if same_key d model_entry then Inr (Some (JObj model_entry # ms))
          else (case upsert_loop ms model_entry of
                  Inl e \<Rightarrow> Inl e
                | Inr None \<Rightarrow> Inr None
                | Inr (Some ms') \<Rightarrow> Inr (Some (m # ms')))
      | _ \<Rightarrow> Inl AttributeError)"

text \<open>
  \<open>upsert_model\<close> on any value. A string or a dictionary under \<^verbatim>\<open>"models"\<close> can be
  enumerated, but its items are strings, which have no \<^verbatim>\<open>get\<close>, and it has no
  \<^verbatim>\<open>append\<close>; \<^verbatim>\<open>None\<close>, a boolean and a number cannot be enumerated.
\<close>

definition upsert_model :: "json \<Rightarrow> dict \<Rightarrow> exc + json" where
  "upsert_model registry model_entry =
     (case py_subscript registry ''models'' of
        Inl e \<Rightarrow> Inl e
      | Inr models \<Rightarrow>
          (case models of
             JArr ms \<Rightarrow>
               (case upsert_loop ms model_entry of
                  Inl e \<Rightarrow> Inl e
                | Inr (Some ms') \<Rightarrow> Inr (set_models registry ms')
                | Inr None \<Rightarrow> Inr (set_models registry (ms @ [JObj model_entry])))
           | JStr s \<Rightarrow> Inl AttributeError
           | JObj d \<Rightarrow> Inl AttributeError
           | _ \<Rightarrow> Inl TypeError))"

text \<open>
  Python's \<^verbatim>\<open><\<close>: numbers (booleans among them) compare with numbers, strings with
  strings, lists and tuples item by item, the first pair of unequal items deciding; every
  other comparison raises \<^verbatim>\<open>TypeError\<close>.
\<close>

fun num_of :: "json \<Rightarrow> int option" where
  "num_of (JInt n) = Some n"
| "num_of (JBool b) = Some (if b then 1 else 0)"
| "num_of _ = None"

fun py_lt :: "json \<Rightarrow> json \<Rightarrow> exc + bool"
  and py_lt_list :: "json list \<Rightarrow> json list \<Rightarrow> exc + bool" where
  "py_lt (JStr s) (JStr t) = Inr (s < t)"
| "py_lt (JArr xs) (JArr ys) = py_lt_list xs ys"
| "py_lt a b =
     (case (num_of a, num_of b) of (Some m, Some n) \<Rightarrow> Inr (m < n) | _ \<Rightarrow> Inl TypeError)"
| "py_lt_list [] ys = Inr (ys \<noteq> [])"
| "py_lt_list (x # xs) [] = Inr False"
| "py_lt_list (x # xs) (y # ys) = (if py_eq x y then py_lt_list xs ys else py_lt x y)"

text \<open>The key function of \<open>save_registry\<close>; the pair is kept as its two items.\<close>

definition sort_key :: "json \<Rightarrow> exc + json list" where
  "sort_key m =
     (case m of
        JObj d \<Rightarrow> Inr [py_get d ''name'' (JStr []), py_get d ''version'' (JStr [])]
      | _ \<Rightarrow> Inl AttributeError)"

fun sort_keys :: "json list \<Rightarrow> exc + (json list \<times> json) list" where
  "sort_keys [] = Inr []"
| "sort_keys (m # ms) =
     (case sort_key m of
        Inl e \<Rightarrow> Inl e
      | Inr k \<Rightarrow> (case sort_keys ms of Inl e \<Rightarrow> Inl e | Inr kms \<Rightarrow> Inr ((k, m) # kms)))"

text \<open>
  \<^verbatim>\<open>list.sort\<close> is stable and raises when a comparison raises. It is modelled as an
  insertion sort that, like the library's, only ever asks whether an item that came later
  is less than one that came earlier.
\<close>

fun py_insort :: "json list \<times> json \<Rightarrow> (json list \<times> json) list
    \<Rightarrow> exc + (json list \<times> json) list" where
  "py_insort x [] = Inr [x]"
| "py_insort x (y # ys) =
     (case py_lt_list (fst y) (fst x) of
        Inl e \<Rightarrow> Inl e
      | Inr True \<Rightarrow> (case py_insort x ys of Inl e \<Rightarrow> Inl e | Inr r \<Rightarrow> Inr (y # r))
      | Inr False \<Rightarrow> Inr (x # y # ys))"

fun py_sort :: "(json list \<times> json) list \<Rightarrow> exc + (json list \<times> json) list" where
  "py_sort [] = Inr []"
| "py_sort (x # xs) = (case py_sort xs of Inl e \<Rightarrow> Inl e | Inr s \<Rightarrow> py_insort x s)"

text \<open>\<^verbatim>\<open>registry["models"].sort(key=...)\<close>: only a list has \<^verbatim>\<open>sort\<close>.\<close>

definition sort_models :: "json \<Rightarrow> exc + json" where
  "sort_models registry =
     (case py_subscript registry ''models'' of
        Inl e \<Rightarrow> Inl e
      | Inr models \<Rightarrow>
          (case models of
             JArr ms \<Rightarrow>
               (case sort_keys ms of
                  Inl e \<Rightarrow> Inl e
                | Inr kms \<Rightarrow>
                    (case py_sort kms of
                       Inl e \<Rightarrow> Inl e
                     | Inr s \<Rightarrow> Inr (set_models registry (map snd s))))
           | _ \<Rightarrow> Inl AttributeError))"

text \<open>\<open>save_registry\<close> returns the value it dumped and the text written to the file.
  Creating \<^verbatim>\<open>magic/\<close> changes nothing: the directory holds \<^verbatim>\<open>magic/upload\<close>.\<close>

definition save_registry :: "pylib \<Rightarrow> exc option \<Rightarrow> json \<Rightarrow> exc + json \<times> string" where
  "save_registry L write_error registry =
     (case sort_models registry of
        Inl e \<Rightarrow> Inl e
      | Inr registry' \<Rightarrow>
          (case write_error of
             Some e \<Rightarrow> Inl e
           | None \<Rightarrow> Inr (registry', json_dumps L registry')))"

section \<open>Catalog builder\<close>

text \<open>The download address: the development server when \<^verbatim>\<open>DEV_SERVER_IP\<close> is set and
  not empty, the repository otherwise.\<close>

definition download_url :: "config \<Rightarrow> string \<Rightarrow> string" where
  "download_url cfg name =
     (case DEV_SERVER_IP cfg of
        Some dev_ip \<Rightarrow>
          if dev_ip \<noteq> [] then
            ''http://'' @ dev_ip @ '':''
              @ (case DEV_SERVER_PORT cfg of None \<Rightarrow> ''8000'' | Some dev_port \<Rightarrow> dev_port)
              @ ''/magic/upload/'' @ name
          else ''https://raw.githubusercontent.com/'' @ REPO_OWNER cfg @ ''/'' @ REPO_NAME cfg
                 @ ''/'' @ DEFAULT_BRANCH cfg @ ''/magic/upload/'' @ name
      | None \<Rightarrow>
          ''https://raw.githubusercontent.com/'' @ REPO_OWNER cfg @ ''/'' @ REPO_NAME cfg
            @ ''/'' @ DEFAULT_BRANCH cfg @ ''/magic/upload/'' @ name)"

text \<open>\<^verbatim>\<open>compat = infos.get("compatible_versions") or infos.get("compat") or []\<close>, then the
  wrapping of a string.\<close>

definition compat_of :: "dict \<Rightarrow> json" where
  "compat_of infos =
     (let compat = py_or (py_or (py_get infos ''compatible_versions'' JNull)
                                (py_get infos ''compat'' JNull))
                         (JArr [])
      in if is_str compat then JArr [compat] else compat)"

text \<open>The condition of the version warning:
  \<^verbatim>\<open>infos.get("version") and infos["version"] != version\<close>.\<close>

definition version_mismatch :: "dict \<Rightarrow> json \<Rightarrow> exc + bool" where
  "version_mismatch infos version =
     (if truthy (py_get infos ''version'' JNull) then
        (case py_subscript (JObj infos) ''version'' of
           Inl e \<Rightarrow> Inl e
         | Inr v \<Rightarrow> Inr (\<not> py_eq v version))
      else Inr False)"

definition build_entry ::
  "config \<Rightarrow> string \<Rightarrow> magic_path \<Rightarrow> string \<Rightarrow> string \<Rightarrow> dict \<Rightarrow> dict" where
  "build_entry cfg date magic name build_id infos =
     [(''name'', py_get infos ''name'' (JStr name)),
      (''version'', py_get infos ''version'' (JStr ''unknown'')),
      (''author'', py_get infos ''author'' (JStr ''unknown'')),
      (''date_created'', py_or (py_get infos ''date_created'' JNull) (JStr date)),
      (''parameters'', py_get infos ''parameters'' (JObj [])),
      (''compatible_versions'', compat_of infos),
      (''size_bytes'', JInt (int (length (content magic)))),
      (''sha256'', JStr (sha256_file (content magic))),
      (''download_url'', JStr (download_url cfg (fname magic))),
      (''build_id'', JStr build_id),
      (''build_type'', JStr (parse_build_type build_id))]"

text \<open>
  One round of the loop of \<open>main\<close>: the lines printed, and the registry afterwards or the
  exception that leaves the loop. Only the call of \<open>read_model_infos_from_magic\<close> is inside
  a \<^verbatim>\<open>try\<close>; a metadata document that is not a dictionary has no \<^verbatim>\<open>get\<close>.
\<close>

definition process_file ::
  "pylib \<Rightarrow> config \<Rightarrow> string \<Rightarrow> magic_path \<Rightarrow> json \<Rightarrow> msg list \<times> (exc + json)" where
  "process_file L cfg date magic registry =
     (case FILENAME_RE_match (fname magic) of
        None \<Rightarrow> ([IgnoredName (fname magic)], Inr registry)
      | Some (name, build_id) \<Rightarrow>
          (case read_model_infos_from_magic L magic of
             Inl e \<Rightarrow> ([FileError (fname magic) e], Inr registry)
           | Inr (JObj infos) \<Rightarrow>
               (let version = py_get infos ''version'' (JStr ''unknown'');
                    build_type = parse_build_type build_id
                in case version_mismatch infos version of
                     Inl e \<Rightarrow> ([], Inl e)
                   | Inr mismatch \<Rightarrow>
                       (let warn = (if mismatch
                                    then [VersionMismatch version (py_get infos ''version'' JNull)]
                                    else []);
                            entry = build_entry cfg date magic name build_id infos
                        in case upsert_model registry entry of
                             Inl e \<Rightarrow> (warn, Inl e)
                           | Inr registry' \<Rightarrow>
                               (warn @ [Upserted (py_get entry ''name'' JNull)
                                          (py_get entry ''version'' JNull) build_type],
                                Inr registry')))
           | Inr _ \<Rightarrow> ([], Inl AttributeError)))"

fun process_files ::
  "pylib \<Rightarrow> config \<Rightarrow> string \<Rightarrow> magic_path list \<Rightarrow> json \<Rightarrow> msg list \<times> (exc + json)" where
  "process_files L cfg date [] registry = ([], Inr registry)"
| "process_files L cfg date (magic # rest) registry =
     (case process_file L cfg date magic registry of
        (out, Inl e) \<Rightarrow> (out, Inl e)
      | (out, Inr registry') \<Rightarrow>
          (case process_files L cfg date rest registry' of (out', r) \<Rightarrow> (out @ out', r)))"

text \<open>\<^verbatim>\<open>[p for p in DIST_DIR.glob("*.magic") if p.is_file()]\<close>.\<close>

definition magic_files :: "magic_path list \<Rightarrow> magic_path list" where
  "magic_files entries = filter (\<lambda>p. endswith (fname p) ''.magic'' \<and> regular p) entries"

text \<open>
  What a run of \<open>main\<close> leaves: the value returned (the exit status) or the exception
  that ends the process, the lines printed, and each completed write of the registry
  file, as the value dumped and the text.
\<close>

record outcome =
  result :: "exc + int"
  printed :: "msg list"
  written :: "(json \<times> string) list"

definition main :: "pylib \<Rightarrow> config \<Rightarrow> world \<Rightarrow> outcome" where
  "main L cfg w =
     (case dist_dir w of
        None \<Rightarrow> \<lparr>result = Inr 0, printed = [NoDistDir], written = []\<rparr>
      | Some entries \<Rightarrow>
          (case load_registry L (registry_file w) of
             (out, Inl e) \<Rightarrow> \<lparr>result = Inl e, printed = out, written = []\<rparr>
           | (out, Inr registry) \<Rightarrow>
               if magic_files entries = []
               then \<lparr>result = Inr 0, printed = out @ [NoMagicFound], written = []\<rparr>
               else
                 (case process_files L cfg (today w) (magic_files entries) registry of
                    (out', Inl e) \<Rightarrow> \<lparr>result = Inl e, printed = out @ out', written = []\<rparr>
                  | (out', Inr registry') \<Rightarrow>
                      (case save_registry L (registry_write_error w) registry' of
                         Inl e \<Rightarrow> \<lparr>result = Inl e, printed = out @ out', written = []\<rparr>
                       | Inr saved \<Rightarrow>
                           \<lparr>result = Inr 0, printed = out @ out' @ [RegistryWritten],
                            written = [saved]\<rparr>))))"

section \<open>A small codec for concrete runs\<close>

text \<open>
  Concrete runs need some \<^verbatim>\<open>json.dump\<close> and \<^verbatim>\<open>json.loads\<close>. \<open>demo_dumps\<close> writes
  compact JSON (no escapes), and \<open>demo_loads docs\<close> reads back exactly the documents of
  \<open>docs\<close>, refusing every other text.
\<close>

fun show_nat :: "nat \<Rightarrow> string" where
  "show_nat n =
     (if n < 10 then [''0123456789'' ! n] else show_nat (n div 10) @ [''0123456789'' ! (n mod 10)])"

declare show_nat.simps [simp del]

definition show_int :: "int \<Rightarrow> string" where
  "show_int i = (if i < 0 then ''-'' @ show_nat (nat (- i)) else show_nat (nat i))"

fun join :: "string \<Rightarrow> string list \<Rightarrow> string" where
  "join sep [] = []"
| "join sep [x] = x"
| "join sep (x # y # ys) = x @ sep @ join sep (y # ys)"

primrec demo_dumps :: "json \<Rightarrow> string" where
  "demo_dumps JNull = ''null''"
| "demo_dumps (JBool b) = (if b then ''true'' else ''false'')"
| "demo_dumps (JInt i) = show_int i"
| "demo_dumps (JStr s) = [CHR 0x22] @ s @ [CHR 0x22]"
| "demo_dumps (JArr xs) = ''['' @ join '','' (map demo_dumps xs) @ '']''"
| "demo_dumps (JObj kvs) =
     ''{'' @ join '',''
              (map (\<lambda>kv. [CHR 0x22] @ fst kv @ [CHR 0x22] @ '':'' @ snd kv)
                   (map (map_prod id demo_dumps) kvs))
        @ ''}''"

definition demo_loads :: "json list \<Rightarrow> string \<Rightarrow> exc + json" where
  "demo_loads docs s =
     (case find (\<lambda>v. py_strip (demo_dumps v) = s) docs of
        None \<Rightarrow> Inl JSONDecodeError
      | Some v \<Rightarrow> Inr v)"

definition demo_lib :: "json list \<Rightarrow> pylib" where
  "demo_lib docs = \<lparr>json_loads = demo_loads docs, json_dumps = demo_dumps\<rparr>"

section \<open>Auxiliary notions for the statements\<close>

text \<open>The list part of \<open>upsert_model\<close> on a catalog whose entries are dictionaries.\<close>

fun upsert_list :: "dict list \<Rightarrow> dict \<Rightarrow> dict list" where
  "upsert_list [] e = [e]"
| "upsert_list (m # ms) e = (if same_key m e then e # ms else m # upsert_list ms e)"

text \<open>At most one entry for each identity key \<open>(name, version)\<close>.\<close>

fun keys_unique :: "dict list \<Rightarrow> bool" where
  "keys_unique [] = True"
| "keys_unique (m # ms) = ((\<forall>m' \<in> set ms. \<not> same_key m m') \<and> keys_unique ms)"


text \<open>A registry of the expected shape: an object whose \<^verbatim>\<open>"models"\<close> is a list.\<close>

definition has_models_list :: "json \<Rightarrow> bool" where
  "has_models_list v =
     (case v of
        JObj d \<Rightarrow> (case map_of d ''models'' of Some (JArr ms) \<Rightarrow> True | _ \<Rightarrow> False)
      | _ \<Rightarrow> False)"

text \<open>The source directory exists and holds a regular file whose name ends in
  \<^verbatim>\<open>.magic\<close>.\<close>

definition has_candidates :: "world \<Rightarrow> bool" where
  "has_candidates w =
     (case dist_dir w of
        None \<Rightarrow> False
      | Some entries \<Rightarrow> \<exists>p \<in> set entries. endswith (fname p) ''.magic'' \<and> regular p)"

section \<open>Concrete inputs\<close>

definition example_config :: config where
  "example_config =
     \<lparr>REPO_OWNER = ''owner'', REPO_NAME = ''repo'', DEFAULT_BRANCH = ''main'',
      DEV_SERVER_IP = None, DEV_SERVER_PORT = None\<rparr>"

definition example_infos :: json where
  "example_infos = JObj [(''version'', JStr ''2.1'')]"

text \<open>\<^verbatim>\<open>mymodel_X7B.magic\<close>, an archive whose only member \<^verbatim>\<open>metadata.json\<close> holds
  \<^verbatim>\<open>{"version":"2.1"}\<close>.\<close>

definition example_magic :: magic_path where
  "example_magic =
     \<lparr>fname = ''mymodel_X7B.magic'', regular = True, content = [],
      zip_view = Inr [(''metadata.json'', Inr (demo_dumps example_infos))]\<rparr>"

text \<open>An archive with two members of the same name.\<close>

definition twice_magic :: magic_path where
  "twice_magic =
     \<lparr>fname = ''mymodel_X7B.magic'', regular = True, content = [],
      zip_view = Inr [(''metadata.json'', Inr (demo_dumps (JObj [(''version'', JStr ''1'')]))),
                      (''metadata.json'', Inr (demo_dumps (JObj [(''version'', JStr ''2'')])))]\<rparr>"

text \<open>A source directory holding \<open>example_magic\<close>, no source directory, and a run date.\<close>

definition example_world :: "file_state \<Rightarrow> world" where
  "example_world f =
     \<lparr>dist_dir = Some [example_magic], registry_file = f, registry_write_error = None,
      today = ''2024-01-01''\<rparr>"

definition empty_world :: world where
  "empty_world =
     \<lparr>dist_dir = None, registry_file = Absent, registry_write_error = None,
      today = ''2024-01-01''\<rparr>"

text \<open>The entry of \<open>example_magic\<close>, and a catalog of two entries.\<close>

definition example_entry :: dict where
  "example_entry =
     build_entry example_config ''2024-01-01'' example_magic ''mymodel'' ''X7B''
       [(''version'', JStr ''2.1'')]"

definition example_catalog :: "dict list" where
  "example_catalog =
     [[(''name'', JStr ''a''), (''version'', JStr ''1''), (''author'', JStr ''x'')],
      [(''name'', JStr ''b''), (''version'', JStr ''1''), (''author'', JStr ''y'')]]"

section \<open>Facts about values\<close>

lemma py_get_simps:
  "py_get [] k d = d"
  "py_get ((k', v) # kvs) k d = (if k' = k then v else py_get kvs k d)"
  by (simp_all add: py_get_def)

lemma py_eq_refl: "py_eq a a"
  by (simp add: py_eq_def)

lemma py_eq_sym: "py_eq a b = py_eq b a"
  by (auto simp: py_eq_def)

lemma py_eq_trans: "py_eq a b \<Longrightarrow> py_eq b c \<Longrightarrow> py_eq a c"
  by (simp add: py_eq_def)

lemma same_key_sym: "same_key a b = same_key b a"
  by (simp add: same_key_def py_eq_sym)

lemma same_key_trans: "same_key a b \<Longrightarrow> same_key b c \<Longrightarrow> same_key a c"
  by (auto simp: same_key_def intro: py_eq_trans)

section \<open>Build-type classifier\<close>

lemma of_char_py_upper_char:
  "(of_char (py_upper_char c) :: nat) =
     (if 97 \<le> (of_char c :: nat) \<and> (of_char c :: nat) \<le> 122 then of_char c - 32 else of_char c)"
  by (auto simp: py_upper_char_def less_eq_char_def)

lemma char_eq_nat: "(c = d) = ((of_char c :: nat) = of_char d)"
  by simp

lemma py_upper_char_eq_A: "py_upper_char c = CHR ''A'' \<longleftrightarrow> c = CHR ''A'' \<or> c = CHR ''a''"
  unfolding char_eq_nat [of _ "CHR ''A''"] char_eq_nat [of _ "CHR ''a''"] of_char_py_upper_char
  by (simp; arith)

lemma py_upper_char_eq_B: "py_upper_char c = CHR ''B'' \<longleftrightarrow> c = CHR ''B'' \<or> c = CHR ''b''"
  unfolding char_eq_nat [of _ "CHR ''B''"] char_eq_nat [of _ "CHR ''b''"] of_char_py_upper_char
  by (simp; arith)

lemma py_upper_char_eq_C: "py_upper_char c = CHR ''C'' \<longleftrightarrow> c = CHR ''C'' \<or> c = CHR ''c''"
  unfolding char_eq_nat [of _ "CHR ''C''"] char_eq_nat [of _ "CHR ''c''"] of_char_py_upper_char
  by (simp; arith)

lemma py_upper_char_eq_D: "py_upper_char c = CHR ''D'' \<longleftrightarrow> c = CHR ''D'' \<or> c = CHR ''d''"
  unfolding char_eq_nat [of _ "CHR ''D''"] char_eq_nat [of _ "CHR ''d''"] of_char_py_upper_char
  by (simp; arith)

lemma py_upper_char_eq_F: "py_upper_char c = CHR ''F'' \<longleftrightarrow> c = CHR ''F'' \<or> c = CHR ''f''"
  unfolding char_eq_nat [of _ "CHR ''F''"] char_eq_nat [of _ "CHR ''f''"] of_char_py_upper_char
  by (simp; arith)

lemma parse_build_type_last:
  "parse_build_type (s @ [c]) =
     (if c = CHR ''A'' \<or> c = CHR ''a'' then ''stable''
      else if c = CHR ''B'' \<or> c = CHR ''b'' then ''rc''
      else if c = CHR ''C'' \<or> c = CHR ''c'' then ''beta''
      else if c = CHR ''D'' \<or> c = CHR ''d'' then ''alpha''
      else if c = CHR ''F'' \<or> c = CHR ''f'' then ''debug''
      else ''unknown'')"
proof -
  have "map_of BUILD_MAP [py_upper_char c] =
          (if py_upper_char c = CHR ''A'' then Some ''stable''
           else if py_upper_char c = CHR ''B'' then Some ''rc''
           else if py_upper_char c = CHR ''C'' then Some ''beta''
           else if py_upper_char c = CHR ''D'' then Some ''alpha''
           else if py_upper_char c = CHR ''F'' then Some ''debug''
           else None)"
    by (simp add: BUILD_MAP_def)
  then show ?thesis
    unfolding py_upper_char_eq_A py_upper_char_eq_B py_upper_char_eq_C py_upper_char_eq_D
      py_upper_char_eq_F
    by (simp add: parse_build_type_def)
qed

lemma filename_example: "FILENAME_RE_match ''mymodel_X7B.magic'' = Some (''mymodel'', ''X7B'')"
  by code_simp

lemma version_mismatch_never:
  "version_mismatch infos (py_get infos ''version'' (JStr ''unknown'')) = Inr False"
  by (cases "map_of infos ''version''")
     (simp_all add: version_mismatch_def py_get_def py_subscript_def py_eq_refl)

lemma upsert_model_empty:
  "upsert_model empty_registry e = Inr (JObj [(''models'', JArr [JObj e])])"
  by (simp add: upsert_model_def empty_registry_def py_subscript_def set_models_def)

text \<open>
  Claim C8. \<open>parse_build_type\<close> is a total function of the build id: the empty string
  gives \<^verbatim>\<open>unknown\<close>, and a string ending in \<open>c\<close> gives \<^verbatim>\<open>stable\<close>, \<^verbatim>\<open>rc\<close>,
  \<^verbatim>\<open>beta\<close>, \<^verbatim>\<open>alpha\<close> or \<^verbatim>\<open>debug\<close> when \<open>c\<close> is A, B, C, D or F in either case, and
  \<^verbatim>\<open>unknown\<close> for every other \<open>c\<close>. A file named \<^verbatim>\<open>mymodel_X7B.magic\<close> whose metadata is
  \<^verbatim>\<open>{"version":"2.1"}\<close> puts into an empty registry one entry with build id \<^verbatim>\<open>X7B\<close>,
  build type \<^verbatim>\<open>rc\<close> and version \<^verbatim>\<open>2.1\<close>.
\<close>

theorem build_type_classifier:
  "parse_build_type [] = ''unknown''
   \<and> parse_build_type (s @ [c]) =
       (if c = CHR ''A'' \<or> c = CHR ''a'' then ''stable''
        else if c = CHR ''B'' \<or> c = CHR ''b'' then ''rc''
        else if c = CHR ''C'' \<or> c = CHR ''c'' then ''beta''
        else if c = CHR ''D'' \<or> c = CHR ''d'' then ''alpha''
        else if c = CHR ''F'' \<or> c = CHR ''f'' then ''debug''
        else ''unknown'')
   \<and> (fname magic = ''mymodel_X7B.magic''
        \<and> read_model_infos_from_magic L magic = Inr (JObj [(''version'', JStr ''2.1'')])
      \<longrightarrow> (\<exists>e. snd (process_file L cfg date magic empty_registry)
                  = Inr (JObj [(''models'', JArr [JObj e])])
               \<and> py_get e ''build_id'' JNull = JStr ''X7B''
               \<and> py_get e ''build_type'' JNull = JStr ''rc''
               \<and> py_get e ''version'' JNull = JStr ''2.1''))"
proof (intro conjI impI)
  show "parse_build_type [] = ''unknown''"
    by (simp add: parse_build_type_def)
  show "parse_build_type (s @ [c]) =
       (if c = CHR ''A'' \<or> c = CHR ''a'' then ''stable''
        else if c = CHR ''B'' \<or> c = CHR ''b'' then ''rc''
        else if c = CHR ''C'' \<or> c = CHR ''c'' then ''beta''
        else if c = CHR ''D'' \<or> c = CHR ''d'' then ''alpha''
        else if c = CHR ''F'' \<or> c = CHR ''f'' then ''debug''
        else ''unknown'')"
    by (rule parse_build_type_last)
next
  assume a: "fname magic = ''mymodel_X7B.magic''
        \<and> read_model_infos_from_magic L magic = Inr (JObj [(''version'', JStr ''2.1'')])"
  let ?infos = "[(''version'', JStr ''2.1'')]"
  let ?e = "build_entry cfg date magic ''mymodel'' ''X7B'' ?infos"
  have rc: "parse_build_type ''X7B'' = ''rc''"
    using parse_build_type_last [of "''X7''" "CHR ''B''"] by simp
  have "snd (process_file L cfg date magic empty_registry) = Inr (JObj [(''models'', JArr [JObj ?e])])"
    using a version_mismatch_never [of ?infos]
    by (simp add: process_file_def filename_example upsert_model_empty Let_def)
  moreover have "py_get ?e ''build_id'' JNull = JStr ''X7B''"
    by (simp add: build_entry_def py_get_simps)
  moreover have "py_get ?e ''build_type'' JNull = JStr ''rc''"
    by (simp add: build_entry_def py_get_simps rc)
  moreover have "py_get ?e ''version'' JNull = JStr ''2.1''"
    by (simp add: build_entry_def py_get_simps)
  ultimately show "\<exists>e. snd (process_file L cfg date magic empty_registry)
                  = Inr (JObj [(''models'', JArr [JObj e])])
               \<and> py_get e ''build_id'' JNull = JStr ''X7B''
               \<and> py_get e ''build_type'' JNull = JStr ''rc''
               \<and> py_get e ''version'' JNull = JStr ''2.1''"
    by blast
qed

text \<open>The theorem at the archive \<open>example_magic\<close>, read with the demonstration codec.\<close>

lemma example_magic_infos:
  "read_model_infos_from_magic (demo_lib [example_infos]) example_magic = Inr example_infos"
  by code_simp

theorem build_type_classifier_witness:
  "fname example_magic = ''mymodel_X7B.magic''
   \<and> read_model_infos_from_magic (demo_lib [example_infos]) example_magic
       = Inr (JObj [(''version'', JStr ''2.1'')])
   \<and> parse_build_type (''X7'' @ [CHR ''B'']) = ''rc''
   \<and> (\<exists>e. snd (process_file (demo_lib [example_infos]) example_config ''2024-01-01''
                   example_magic empty_registry)
                  = Inr (JObj [(''models'', JArr [JObj e])])
               \<and> py_get e ''build_id'' JNull = JStr ''X7B''
               \<and> py_get e ''build_type'' JNull = JStr ''rc''
               \<and> py_get e ''version'' JNull = JStr ''2.1'')"
proof -
  have h1: "fname example_magic = ''mymodel_X7B.magic''"
    by (simp add: example_magic_def)
  have h2: "read_model_infos_from_magic (demo_lib [example_infos]) example_magic
       = Inr (JObj [(''version'', JStr ''2.1'')])"
    using example_magic_infos by (simp add: example_infos_def)
  show ?thesis
    using h1 h2
      build_type_classifier [of "''X7''" "CHR ''B''" example_magic "demo_lib [example_infos]"
        example_config "''2024-01-01''"]
    by simp
qed


section \<open>Normalization of the compatible versions\<close>



section \<open>Loading the registry\<close>



lemma load_registry_total: "\<exists>out v. load_registry L f = (out, Inr v)"
  by (cases "load_body L f"; cases "snd (load_body L f)") (auto simp: load_registry_def)



section \<open>Upsert\<close>

text \<open>On a catalog of dictionaries the loop of \<open>upsert_model\<close> is \<open>upsert_list\<close>.\<close>

lemma upsert_list_no_match:
  "\<forall>m \<in> set ms. \<not> same_key m e \<Longrightarrow> upsert_list ms e = ms @ [e]"
  by (induction ms) auto

lemma upsert_list_match:
  "\<exists>m \<in> set ms. same_key m e \<Longrightarrow>
   \<exists>i < length ms. same_key (ms ! i) e \<and> (\<forall>j < i. \<not> same_key (ms ! j) e)
      \<and> upsert_list ms e = ms[i := e]"
proof (induction ms)
  case Nil
  then show ?case by simp
next
  case (Cons m ms)
  show ?case
  proof (cases "same_key m e")
    case True
    then have "0 < length (m # ms) \<and> same_key ((m # ms) ! 0) e
        \<and> (\<forall>j < 0. \<not> same_key ((m # ms) ! j) e) \<and> upsert_list (m # ms) e = (m # ms)[0 := e]"
      by simp
    then show ?thesis by blast
  next
    case False
    with Cons.prems have "\<exists>m \<in> set ms. same_key m e" by simp
    from Cons.IH [OF this] obtain i where i: "i < length ms" "same_key (ms ! i) e"
      "\<forall>j < i. \<not> same_key (ms ! j) e" "upsert_list ms e = ms[i := e]"
      by blast
    have "\<forall>j < Suc i. \<not> same_key ((m # ms) ! j) e"
    proof (intro allI impI)
      fix j assume "j < Suc i"
      then show "\<not> same_key ((m # ms) ! j) e"
        using False i(3) by (cases j) auto
    qed
    with i False have "Suc i < length (m # ms) \<and> same_key ((m # ms) ! Suc i) e
        \<and> (\<forall>j < Suc i. \<not> same_key ((m # ms) ! j) e)
        \<and> upsert_list (m # ms) e = (m # ms)[Suc i := e]"
      by simp
    then show ?thesis by blast
  qed
qed

lemma set_upsert_list: "set (upsert_list ms e) \<subseteq> insert e (set ms)"
  by (induction ms) auto

lemma keys_unique_upsert_list: "keys_unique ms \<Longrightarrow> keys_unique (upsert_list ms e)"
proof (induction ms)
  case Nil
  then show ?case by simp
next
  case (Cons m ms)
  show ?case
  proof (cases "same_key m e")
    case True
    have "\<forall>m' \<in> set ms. \<not> same_key e m'"
    proof
      fix m' assume m': "m' \<in> set ms"
      with Cons.prems have "\<not> same_key m m'" by simp
      with True show "\<not> same_key e m'" using same_key_trans by blast
    qed
    with Cons.prems True show ?thesis by simp
  next
    case False
    then have "\<forall>m' \<in> set (upsert_list ms e). \<not> same_key m m'"
      using Cons.prems set_upsert_list [of ms e] by auto
    with Cons False show ?thesis by simp
  qed
qed

lemma upsert_loop_dicts:
  "upsert_loop (map JObj ms) e =
     Inr (if \<exists>m \<in> set ms. same_key m e then Some (map JObj (upsert_list ms e)) else None)"
  by (induction ms) auto

lemma py_subscript_set_models:
  "py_subscript registry ''models'' = Inr v \<Longrightarrow>
   py_subscript (set_models registry ms) ''models'' = Inr (JArr ms)"
proof -
  have *: "map_of (set_item d k x) k = Some x" for d :: dict and k x
    by (induction d) auto
  assume "py_subscript registry ''models'' = Inr v"
  then show ?thesis
    by (cases registry) (simp_all add: py_subscript_def set_models_def *)
qed

lemma upsert_model_dicts:
  assumes "py_subscript registry ''models'' = Inr (JArr (map JObj ms))"
  shows "upsert_model registry e = Inr (set_models registry (map JObj (upsert_list ms e)))"
  using assms upsert_list_no_match [of ms e]
  by (simp add: upsert_model_def upsert_loop_dicts)

text \<open>
  Claim C1. Let the catalog of a registry be a list of dictionaries with at most one
  entry for each key \<open>(name, version)\<close>. Then \<open>upsert_model\<close> succeeds and the
  catalog it leaves again has at most one entry for each key. If an entry has the name
  and version of the new one, the new entry stands in its place, whole, and every other
  position is as before; if none has, the new entry is added at the end.
\<close>

theorem upsert_model_key_stable:
  assumes "keys_unique ms"
    and "py_subscript registry ''models'' = Inr (JArr (map JObj ms))"
  shows "\<exists>registry' ms'.
           upsert_model registry e = Inr registry'
           \<and> py_subscript registry' ''models'' = Inr (JArr (map JObj ms'))
           \<and> keys_unique ms'
           \<and> (if \<exists>m \<in> set ms. same_key m e
               then \<exists>i < length ms. same_key (ms ! i) e \<and> ms' = ms[i := e]
               else ms' = ms @ [e])"
proof -
  let ?ms' = "upsert_list ms e"
  have "upsert_model registry e = Inr (set_models registry (map JObj ?ms'))"
    using assms(2) by (rule upsert_model_dicts)
  moreover have "py_subscript (set_models registry (map JObj ?ms')) ''models''
                   = Inr (JArr (map JObj ?ms'))"
    using assms(2) by (rule py_subscript_set_models)
  moreover have "keys_unique ?ms'"
    using assms(1) by (rule keys_unique_upsert_list)
  moreover have "if \<exists>m \<in> set ms. same_key m e
               then \<exists>i < length ms. same_key (ms ! i) e \<and> ?ms' = ms[i := e]
               else ?ms' = ms @ [e]"
    using upsert_list_match [of ms e] upsert_list_no_match [of ms e] by auto
  ultimately show ?thesis by blast
qed


section \<open>A registry of the wrong shape\<close>

lemma upsert_model_wrong_shape:
  "\<not> has_models_list v \<Longrightarrow>
   upsert_model v e =
     Inl (case v of
            JObj d \<Rightarrow> (case map_of d ''models'' of
                         None \<Rightarrow> KeyError
                       | Some (JStr s) \<Rightarrow> AttributeError
                       | Some (JObj d') \<Rightarrow> AttributeError
                       | Some _ \<Rightarrow> TypeError)
          | _ \<Rightarrow> TypeError)"
  by (auto simp: has_models_list_def upsert_model_def py_subscript_def
           split: json.splits option.splits)

lemma sort_models_wrong_shape:
  "\<not> has_models_list v \<Longrightarrow>
   sort_models v =
     Inl (case v of
            JObj d \<Rightarrow> (case map_of d ''models'' of None \<Rightarrow> KeyError | Some _ \<Rightarrow> AttributeError)
          | _ \<Rightarrow> TypeError)"
  by (auto simp: has_models_list_def sort_models_def py_subscript_def
           split: json.splits option.splits)

lemma process_file_wrong_shape:
  assumes "\<not> has_models_list v"
  shows "(\<exists>x. snd (process_file L cfg date magic v) = Inl x)
         \<or> snd (process_file L cfg date magic v) = Inr v"
  using upsert_model_wrong_shape [OF assms]
  by (auto simp: process_file_def Let_def split: option.splits sum.splits json.splits prod.splits)

lemma process_files_wrong_shape:
  assumes "\<not> has_models_list v"
  shows "(\<exists>x. snd (process_files L cfg date files v) = Inl x)
         \<or> snd (process_files L cfg date files v) = Inr v"
proof (induction files)
  case Nil
  then show ?case by simp
next
  case (Cons magic rest)
  from process_file_wrong_shape [OF assms, of L cfg date magic]
  show ?case
  proof
    assume "\<exists>x. snd (process_file L cfg date magic v) = Inl x"
    then show ?thesis by (auto split: prod.splits sum.splits)
  next
    assume "snd (process_file L cfg date magic v) = Inr v"
    with Cons.IH show ?thesis by (auto split: prod.splits sum.splits)
  qed
qed

lemma magic_files_nonempty: "has_candidates w \<longleftrightarrow> (\<exists>entries. dist_dir w = Some entries \<and> magic_files entries \<noteq> [])"
  by (auto simp: has_candidates_def magic_files_def filter_empty_conv split: option.splits)

lemma load_registry_parsed:
  "py_strip text \<noteq> [] \<Longrightarrow> json_loads L (py_strip text) = Inr v \<Longrightarrow>
   load_registry L (Content text) = ([], Inr v)"
  by (simp add: load_registry_def load_body_def read_text_def Let_def)

text \<open>
  Claim C10, amended. A value that \<^verbatim>\<open>json.loads\<close> returns is handed on by
  \<open>load_registry\<close> as it is. When it is not an object whose \<^verbatim>\<open>"models"\<close> is a list,
  \<open>upsert_model\<close> and \<open>save_registry\<close> raise \<^verbatim>\<open>KeyError\<close>, \<^verbatim>\<open>TypeError\<close> or
  \<^verbatim>\<open>AttributeError\<close>, and a run that finds a candidate file ends with an exception and
  writes nothing.
\<close>

theorem wrong_shape_raises:
  assumes "\<not> has_models_list v"
  shows "(py_strip text \<noteq> [] \<and> json_loads L (py_strip text) = Inr v
            \<longrightarrow> load_registry L (Content text) = ([], Inr v))
         \<and> (\<exists>x. upsert_model v e = Inl x \<and> (x = KeyError \<or> x = TypeError \<or> x = AttributeError))
         \<and> (\<exists>x. save_registry L write_error v = Inl x
                  \<and> (x = KeyError \<or> x = TypeError \<or> x = AttributeError))
         \<and> (py_strip text \<noteq> [] \<and> json_loads L (py_strip text) = Inr v
              \<and> registry_file w = Content text \<and> has_candidates w
            \<longrightarrow> (\<exists>x. result (main L cfg w) = Inl x) \<and> written (main L cfg w) = [])"
proof (intro conjI impI)
  assume "py_strip text \<noteq> [] \<and> json_loads L (py_strip text) = Inr v"
  then show "load_registry L (Content text) = ([], Inr v)"
    by (simp add: load_registry_parsed)
next
  show "\<exists>x. upsert_model v e = Inl x \<and> (x = KeyError \<or> x = TypeError \<or> x = AttributeError)"
    using upsert_model_wrong_shape [OF assms, of e]
    by (auto split: json.splits option.splits)
next
  show "\<exists>x. save_registry L write_error v = Inl x
                  \<and> (x = KeyError \<or> x = TypeError \<or> x = AttributeError)"
    using sort_models_wrong_shape [OF assms]
    by (auto simp: save_registry_def split: json.splits option.splits)
next
  assume a: "py_strip text \<noteq> [] \<and> json_loads L (py_strip text) = Inr v
              \<and> registry_file w = Content text \<and> has_candidates w"
  then obtain entries where en: "dist_dir w = Some entries" "magic_files entries \<noteq> []"
    by (auto simp: magic_files_nonempty)
  from a have ld: "load_registry L (registry_file w) = ([], Inr v)"
    by (simp add: load_registry_parsed)
  have sv: "\<exists>x. save_registry L (registry_write_error w) v = Inl x"
    using sort_models_wrong_shape [OF assms] by (simp add: save_registry_def)
  from process_files_wrong_shape [OF assms, of L cfg "today w" "magic_files entries"]
  have "(\<exists>x. result (main L cfg w) = Inl x) \<and> written (main L cfg w) = []"
  proof
    assume "\<exists>x. snd (process_files L cfg (today w) (magic_files entries) v) = Inl x"
    then show ?thesis using en ld
      by (auto simp: main_def split: prod.splits sum.splits)
  next
    assume "snd (process_files L cfg (today w) (magic_files entries) v) = Inr v"
    then show ?thesis using en ld sv
      by (auto simp: main_def split: prod.splits sum.splits)
  qed
  then show "\<exists>x. result (main L cfg w) = Inl x" and "written (main L cfg w) = []"
    by simp_all
qed

text \<open>
  Claim C10, as stated, names \<^verbatim>\<open>KeyError\<close> and \<^verbatim>\<open>TypeError\<close> only. For the registry
  \<^verbatim>\<open>{"models": {}}\<close> both functions raise \<^verbatim>\<open>AttributeError\<close>.
\<close>

theorem wrong_shape_counterexample:
  "\<not> has_models_list (JObj [(''models'', JObj [])])
   \<and> upsert_model (JObj [(''models'', JObj [])]) [] = Inl AttributeError
   \<and> save_registry (demo_lib []) None (JObj [(''models'', JObj [])]) = Inl AttributeError
   \<and> AttributeError \<noteq> KeyError \<and> AttributeError \<noteq> TypeError"
  by (simp add: has_models_list_def upsert_model_def save_registry_def sort_models_def
        py_subscript_def)


section \<open>Archive metadata reader\<close>

text \<open>What holds of claim C7: the errors, and the first matching member when no later
  member bears its name.\<close>

lemma find_candidate_none:
  "find_candidate names = None \<longleftrightarrow> (\<forall>n \<in> set names. \<not> endswith (py_lower n) ''metadata.json'')"
  by (induction names) auto

lemma find_candidate_first:
  "\<forall>n \<in> set pre. \<not> endswith (py_lower n) ''metadata.json'' \<Longrightarrow>
   endswith (py_lower name) ''metadata.json'' \<Longrightarrow>
   find_candidate (pre @ name # post) = Some name"
  by (induction pre) auto

lemma endswith_nonempty: "endswith s ''metadata.json'' \<Longrightarrow> s \<noteq> []"
  by (auto simp: endswith_def)

lemma read_model_infos_errors:
  "(zip_view magic = Inl e \<longrightarrow> read_model_infos_from_magic L magic = Inl e)
   \<and> (zip_view magic = Inr z \<and> (\<forall>n \<in> set (namelist z). \<not> endswith (py_lower n) ''metadata.json'')
        \<longrightarrow> read_model_infos_from_magic L magic = Inl FileNotFoundError)"
  using find_candidate_none [of "namelist z"]
  by (auto simp: read_model_infos_from_magic_def)

lemma zip_read_unique:
  "name \<notin> fst ` set pre \<Longrightarrow> name \<notin> fst ` set post \<Longrightarrow>
   zip_read (pre @ (name, r) # post) name = r"
proof -
  assume a: "name \<notin> fst ` set pre" "name \<notin> fst ` set post"
  then have "map_of (rev post) name = None"
    by (simp add: map_of_eq_None_iff)
  then show ?thesis
    by (simp add: zip_read_def map_add_def)
qed

lemma read_model_infos_first_match:
  assumes "zip_view magic = Inr (pre @ (name, Inr text) # post)"
    and "\<forall>n \<in> fst ` set pre. \<not> endswith (py_lower n) ''metadata.json''"
    and "endswith (py_lower name) ''metadata.json''"
    and "name \<notin> fst ` set post"
  shows "read_model_infos_from_magic L magic = json_loads L text"
proof -
  have c: "find_candidate (namelist (pre @ (name, Inr text) # post)) = Some name"
    using find_candidate_first [of "map fst pre" name "map fst post"] assms(2,3)
    by (simp add: namelist_def)
  have "name \<notin> fst ` set pre" using assms(2,3) by auto
  then have r: "zip_read (pre @ (name, Inr text) # post) name = Inr text"
    using assms(4) by (rule zip_read_unique)
  have "py_lower name \<noteq> []" using assms(3) by (rule endswith_nonempty)
  then have "name \<noteq> []" by (auto simp: py_lower_def)
  then show ?thesis
    using assms(1) c r by (simp add: read_model_infos_from_magic_def)
qed

text \<open>
  Claim C7 says that the first member whose name ends in \<^verbatim>\<open>metadata.json\<close> is parsed
  and that later matching members are never read. In the archive \<open>twice_magic\<close> two
  members are named \<^verbatim>\<open>metadata.json\<close>; the loop stops at the first name, and
  \<^verbatim>\<open>z.open\<close> of that name reads the second member.
\<close>

theorem duplicate_member_read_last:
  "zip_view twice_magic
     = Inr [(''metadata.json'', Inr (demo_dumps (JObj [(''version'', JStr ''1'')]))),
            (''metadata.json'', Inr (demo_dumps (JObj [(''version'', JStr ''2'')])))]
   \<and> read_model_infos_from_magic
        (demo_lib [JObj [(''version'', JStr ''1'')], JObj [(''version'', JStr ''2'')]]) twice_magic
       = Inr (JObj [(''version'', JStr ''2'')])"
  by code_simp

section \<open>The version warning\<close>

text \<open>The warning compares the version of the metadata with itself.\<close>

lemma version_warning_never_printed:
  "VersionMismatch a b \<notin> set (fst (process_file L cfg date magic registry))"
  using version_mismatch_never
  by (auto simp: process_file_def Let_def split: option.splits sum.splits json.splits prod.splits)

text \<open>
  Claim C5 says that a warning is printed when the version of the metadata differs from
  the version the file name implies. The file \<^verbatim>\<open>mymodel_X7B.magic\<close> with metadata
  \<^verbatim>\<open>{"version":"2.1"}\<close> is processed, its entry is put into the registry, and the only
  line printed is the one that reports the entry.
\<close>

theorem version_warning_not_printed:
  "fst (process_file (demo_lib [example_infos]) example_config ''2024-01-01'' example_magic
         empty_registry)
     = [Upserted (JStr ''mymodel'') (JStr ''2.1'') ''rc'']
   \<and> (\<exists>e. snd (process_file (demo_lib [example_infos]) example_config ''2024-01-01''
                    example_magic empty_registry)
             = Inr (JObj [(''models'', JArr [JObj e])]))"
proof -
  have f: "fname example_magic = ''mymodel_X7B.magic''"
    by (simp add: example_magic_def)
  have rc: "parse_build_type ''X7B'' = ''rc''"
    by code_simp
  have rd: "read_model_infos_from_magic (demo_lib [JObj [(''version'', JStr ''2.1'')]])
              example_magic = Inr (JObj [(''version'', JStr ''2.1'')])"
    using example_magic_infos by (simp add: example_infos_def)
  show ?thesis
    using version_mismatch_never [of "[(''version'', JStr ''2.1'')]"]
    by (simp add: process_file_def f filename_example rd example_infos_def
          upsert_model_empty Let_def build_entry_def py_get_simps rc)
qed

section \<open>Writes of the registry file\<close>

text \<open>
  Claim C6. Without a candidate file (no source directory, or no regular file in it whose
  name ends in \<^verbatim>\<open>.magic\<close>) the run returns 0 and writes nothing. With a candidate file,
  a run that returns has returned 0 and has written the registry file exactly once.
\<close>

theorem registry_written_once:
  "(\<not> has_candidates w \<longrightarrow> result (main L cfg w) = Inr 0 \<and> written (main L cfg w) = [])
   \<and> (has_candidates w \<and> result (main L cfg w) = Inr code
        \<longrightarrow> code = 0 \<and> length (written (main L cfg w)) = 1)"
proof (intro conjI impI)
  assume n: "\<not> has_candidates w"
  obtain out v where ld: "load_registry L (registry_file w) = (out, Inr v)"
    using load_registry_total by blast
  from n have "dist_dir w = None \<or> (\<exists>entries. dist_dir w = Some entries \<and> magic_files entries = [])"
    by (cases "dist_dir w") (auto simp: magic_files_nonempty)
  then show "result (main L cfg w) = Inr 0" and "written (main L cfg w) = []"
    using ld by (auto simp: main_def)
next
  assume a: "has_candidates w \<and> result (main L cfg w) = Inr code"
  then obtain entries where en: "dist_dir w = Some entries" "magic_files entries \<noteq> []"
    by (auto simp: magic_files_nonempty)
  obtain out v where ld: "load_registry L (registry_file w) = (out, Inr v)"
    using load_registry_total by blast
  from a en ld show "code = 0" and "length (written (main L cfg w)) = 1"
    by (auto simp: main_def split: prod.splits sum.splits)
qed


section \<open>Checksum\<close>

lemma read_chunks_all: "read_chunks rest h = h @ rest"
proof (induction rest h rule: read_chunks.induct)
  case (1 rest h)
  show ?case
  proof (cases "take CHUNK rest = []")
    case True
    then have "rest = []" by (simp add: CHUNK_def)
    with True show ?thesis by (simp add: read_chunks.simps [of "[]" h])
  next
    case False
    then have "read_chunks rest h = read_chunks (drop CHUNK rest) (hash_update h (take CHUNK rest))"
      by (simp add: read_chunks.simps [of rest h])
    also have "\<dots> = hash_update h (take CHUNK rest) @ drop CHUNK rest"
      using False by (rule "1.IH")
    also have "\<dots> = h @ rest"
      by (simp add: hash_update_def)
    finally show ?thesis .
  qed
qed

lemma sha256_file_hexdigest: "sha256_file bs = hexdigest bs"
  by (simp add: sha256_file_def read_chunks_all hash_new_def hash_hexdigest_def)

lemma length_round256: "length s = 8 \<Longrightarrow> length (round256 kw s) = 8"
  by (cases kw) (auto simp: numeral_eq_Suc length_Suc_conv Let_def)

lemma length_fold_round256: "length s = 8 \<Longrightarrow> length (fold round256 kws s) = 8"
  by (induction kws arbitrary: s) (simp_all add: length_round256)

lemma length_compress: "length h = 8 \<Longrightarrow> length (compress b h) = 8"
  by (simp add: compress_def length_fold_round256)

lemma length_fold_compress: "length h = 8 \<Longrightarrow> length (fold compress bs h) = 8"
  by (induction bs arbitrary: h) (simp_all add: length_compress)

lemma length_sha256: "length (sha256 m) = 8"
  by (simp add: sha256_def length_fold_compress H256_def)

lemma length_hex32: "length (hex32 w) = 8"
  by (simp add: hex32_def)

lemma length_hexdigest: "length (hexdigest m) = 64"
proof -
  have "length (hexdigest m) = sum_list (map (\<lambda>w. 8) (sha256 m))"
    by (simp add: hexdigest_def length_concat length_hex32 comp_def)
  also have "\<dots> = 8 * length (sha256 m)"
    by (simp add: sum_list_triv)
  finally show ?thesis by (simp add: length_sha256)
qed

lemma hex_digit_lower: "hex_digit n \<in> set ''0123456789abcdef''"
proof -
  have "n mod 16 < length ''0123456789abcdef''" by simp
  then have "''0123456789abcdef'' ! (n mod 16) \<in> set ''0123456789abcdef''"
    by (rule nth_mem)
  then show ?thesis by (simp only: hex_digit_def)
qed

lemma hexdigest_lower: "list_all (\<lambda>c. c \<in> set ''0123456789abcdef'') (hexdigest m)"
  using hex_digit_lower
  by (auto simp: hexdigest_def hex32_def list_all_iff)

text \<open>
  Claim C9. Reading a file in chunks of 1 MiB and feeding each chunk to the hash gives
  the SHA-256 digest of the whole content, a string of 64 lower-case hexadecimal digits,
  and this is the \<^verbatim>\<open>sha256\<close> field of the entry built for the file.
\<close>

theorem sha256_file_streaming:
  "sha256_file bs = hexdigest bs
   \<and> length (hexdigest bs) = 64
   \<and> list_all (\<lambda>c. c \<in> set ''0123456789abcdef'') (hexdigest bs)
   \<and> py_get (build_entry cfg date magic name build_id infos) ''sha256'' JNull
       = JStr (hexdigest (content magic))"
  by (simp add: sha256_file_hexdigest length_hexdigest hexdigest_lower build_entry_def
        py_get_simps del: set_simps)



end
